theory Spec2Isabelle
  imports Main "HOL-Library.AList"
begin

section \<open>The ALTCHA starter server (src/index.ts)\<close>

text \<open>
  The repository is one file: a Hono application with three routes, \<^verbatim>\<open>GET /altcha\<close>,
  \<^verbatim>\<open>POST /submit\<close> and \<^verbatim>\<open>POST /submit_spam_filter\<close>. The four operations it calls,
  \<^verbatim>\<open>createChallenge\<close>, \<^verbatim>\<open>verifySolution\<close>, \<^verbatim>\<open>verifyServerSignature\<close> and
  \<^verbatim>\<open>verifyFieldsHash\<close>, are imported from the package \<^verbatim>\<open>altcha-lib\<close>, whose code is not
  part of the repository. The routes are therefore modelled as functions of the behaviour
  of these four operations: each is a parameter that either returns a value or throws.
\<close>

subsection \<open>Form data\<close>

text \<open>
  A \<^verbatim>\<open>FormData\<close> is an ordered list of entries; a value is a string or a \<^verbatim>\<open>File\<close>
  (of which only the name is kept). \<^verbatim>\<open>formData.get(name)\<close> is the first value under the
  name, or \<^verbatim>\<open>null\<close>.
\<close>

datatype form_value = FText string | FFile string

type_synonym form_data = "(string \<times> form_value) list"

definition formData_get :: "form_data \<Rightarrow> string \<Rightarrow> form_value option" where
  "formData_get formData name = map_of formData name"

text \<open>
  \<^verbatim>\<open>!altcha\<close>: \<^verbatim>\<open>null\<close> and the empty string are falsy, a \<^verbatim>\<open>File\<close> object and a
  non-empty string are truthy.
\<close>

fun falsy :: "form_value option \<Rightarrow> bool" where
  "falsy None = True"
| "falsy (Some (FText s)) = (s = [])"
| "falsy (Some (FFile f)) = False"

text \<open>\<^verbatim>\<open>String(altcha)\<close>.\<close>

fun String_of :: "form_value option \<Rightarrow> string" where
  "String_of None = ''null''"
| "String_of (Some (FText s)) = s"
| "String_of (Some (FFile f)) = ''[object File]''"

text \<open>
  \<^verbatim>\<open>Object.fromEntries(formData)\<close>: a later entry under the same name replaces the value
  of the earlier one. The enumeration order of the keys of the resulting object is not
  part of any property here.
\<close>

definition fromEntries :: "form_data \<Rightarrow> form_data" where
  "fromEntries formData = foldl (\<lambda>obj (k, v). AList.update k v obj) [] formData"

subsection \<open>Values exchanged with altcha-lib\<close>

text \<open>
  Modelled from the spec: the type declarations of \<^verbatim>\<open>altcha-lib\<close> are not in the
  repository. A challenge is \<^verbatim>\<open>{algorithm, challenge, salt, signature, maxnumber}\<close>, a
  solution payload is \<^verbatim>\<open>{algorithm, challenge, number, salt, signature}\<close>; the four
  fields they share are the common part of the two records.
\<close>

record signed_puzzle =
  algorithm :: string
  challenge :: string
  salt :: string
  signature :: string

record challenge_rec = signed_puzzle +
  maxnumber :: int

record payload = signed_puzzle +
  number :: int

text \<open>
  Modelled from the spec: VerificationData is
  \<^verbatim>\<open>{classification, fields?, fieldsHash?, time?}\<close>. The route compares
  \<^verbatim>\<open>classification\<close> with the string \<^verbatim>\<open>'BAD'\<close>, so it is kept as a string: whatever
  else the classifier wrote there counts as not BAD. An absent optional field is
  \<open>None\<close>.
\<close>

record verification_data =
  classification :: string
  fields' :: "string list option"
  fieldsHash :: "string option"
  time :: "nat option"

text \<open>The object \<^verbatim>\<open>{ verificationData, verified }\<close> that \<^verbatim>\<open>verifyServerSignature\<close> returns.\<close>

record server_signature =
  verificationData :: "verification_data option"
  verified :: bool

text \<open>The options object the route passes to \<^verbatim>\<open>createChallenge\<close>.\<close>

record challenge_options =
  hmacKey :: string
  maxNumber :: int

subsection \<open>Thrown values and responses\<close>

text \<open>
  A \<^verbatim>\<open>catch (error: any)\<close> block reads \<^verbatim>\<open>error.message\<close>. A thrown value is modelled
  by what that read gives: a message, \<^verbatim>\<open>undefined\<close> (\<open>Thrown None\<close>), or, when the
  thrown value is \<^verbatim>\<open>null\<close> or \<^verbatim>\<open>undefined\<close> itself, a \<^verbatim>\<open>TypeError\<close> raised inside the
  catch block, which then leaves the handler.
\<close>

datatype thrown = Thrown "string option" | ThrownNullish

datatype uncaught = TypeError

text \<open>
  \<^verbatim>\<open>c.json(obj, status)\<close>; the status is 200 when not given. The three shapes of body
  the routes build: \<^verbatim>\<open>{error, details?}\<close>, the challenge, and
  \<^verbatim>\<open>{success: true, data, verificationData?}\<close>. A \<^verbatim>\<open>details\<close> that is \<^verbatim>\<open>undefined\<close> is
  dropped by the JSON serialisation, as an absent one.
\<close>

datatype body =
    ErrorBody string "string option"
  | ChallengeBody challenge_rec
  | SuccessBody form_data "verification_data option"

record response =
  status :: nat
  body :: body

definition json :: "body \<Rightarrow> nat \<Rightarrow> uncaught + response" where
  "json b st = Inr \<lparr>status = st, body = b\<rparr>"

text \<open>The catch block of each route, with the route's own error text.\<close>

fun catch_block :: "string \<Rightarrow> thrown \<Rightarrow> uncaught + response" where
  "catch_block what (Thrown message) = json (ErrorBody what message) 500"
| "catch_block what ThrownNullish = Inl TypeError"

subsection \<open>Configuration\<close>

text \<open>
  \<^verbatim>\<open>process.env.ALTCHA_HMAC_KEY || randomBytes(16).toString('hex')\<close>: an unset or empty
  variable is replaced by the random hexadecimal text drawn at startup.
\<close>

definition ALTCHA_HMAC_KEY :: "string option \<Rightarrow> string \<Rightarrow> string" where
  "ALTCHA_HMAC_KEY env randomHex =
     (case env of None \<Rightarrow> randomHex | Some k \<Rightarrow> if k = [] then randomHex else k)"

subsection \<open>The routes\<close>

text \<open>\<^verbatim>\<open>GET /altcha\<close>.\<close>

definition get_altcha ::
  "(challenge_options \<Rightarrow> thrown + challenge_rec) \<Rightarrow> string \<Rightarrow> uncaught + response" where
  "get_altcha createChallenge key =
     (case createChallenge \<lparr>hmacKey = key, maxNumber = 50000\<rparr> of
        Inl error \<Rightarrow> catch_block ''Failed to create challenge'' error
      | Inr ch \<Rightarrow> json (ChallengeBody ch) 200)"

text \<open>
  \<^verbatim>\<open>POST /submit\<close>. The request is what \<^verbatim>\<open>await c.req.formData()\<close> gives: the form
  data, or a thrown value.
\<close>

definition post_submit ::
  "(string \<Rightarrow> string \<Rightarrow> thrown + bool) \<Rightarrow> string \<Rightarrow> thrown + form_data \<Rightarrow> uncaught + response" where
  "post_submit verifySolution key request =
     (case request of
        Inl error \<Rightarrow> catch_block ''Failed to process submission'' error
      | Inr formData \<Rightarrow>
          (let altcha = formData_get formData ''altcha'' in
           if falsy altcha then json (ErrorBody ''Altcha payload missing'' None) 400
           else
             (case verifySolution (String_of altcha) key of
                Inl error \<Rightarrow> catch_block ''Failed to process submission'' error
              | Inr ok \<Rightarrow>
                  if \<not> ok then json (ErrorBody ''Invalid Altcha payload'' None) 400
                  else json (SuccessBody (fromEntries formData) None) 200)))"

text \<open>
  \<^verbatim>\<open>POST /submit_spam_filter\<close>. In \<^verbatim>\<open>fields && fieldsHash && !await verifyFieldsHash(...)\<close>
  an array is truthy even when empty and a string is truthy unless empty; the call is
  made only when both are.
\<close>

definition classified ::
  "(form_data \<Rightarrow> string list \<Rightarrow> string \<Rightarrow> thrown + bool) \<Rightarrow> form_data \<Rightarrow>
   verification_data \<Rightarrow> uncaught + response" where
  "classified verifyFieldsHash formData vd =
     (let accepted = json (SuccessBody (fromEntries formData) (Some vd)) 200 in
      if classification vd = ''BAD'' then json (ErrorBody ''Classified as spam'' None) 400
      else
        (case (fields' vd, fieldsHash vd) of
           (Some fs, Some h) \<Rightarrow>
             if h = [] then accepted
             else
               (case verifyFieldsHash formData fs h of
                  Inl error \<Rightarrow> catch_block ''Failed to process submission with spam filter'' error
                | Inr ok \<Rightarrow>
                    if \<not> ok then json (ErrorBody ''Invalid fields hash'' None) 400
                    else accepted)
         | _ \<Rightarrow> accepted))"

definition post_submit_spam_filter ::
  "(string \<Rightarrow> string \<Rightarrow> thrown + server_signature) \<Rightarrow>
   (form_data \<Rightarrow> string list \<Rightarrow> string \<Rightarrow> thrown + bool) \<Rightarrow>
   string \<Rightarrow> thrown + form_data \<Rightarrow> uncaught + response" where
  "post_submit_spam_filter verifyServerSignature verifyFieldsHash key request =
     (case request of
        Inl error \<Rightarrow> catch_block ''Failed to process submission with spam filter'' error
      | Inr formData \<Rightarrow>
          (let altcha = formData_get formData ''altcha'' in
           if falsy altcha then json (ErrorBody ''Altcha payload missing'' None) 400
           else
             (case verifyServerSignature (String_of altcha) key of
                Inl error \<Rightarrow> catch_block ''Failed to process submission with spam filter'' error
              | Inr r \<Rightarrow>
                  (case verificationData r of
                     None \<Rightarrow> json (ErrorBody ''Invalid Altcha payload'' None) 400
                   | Some vd \<Rightarrow>
                       if \<not> verified r then json (ErrorBody ''Invalid Altcha payload'' None) 400
                       else classified verifyFieldsHash formData vd))))"

text \<open>A response that turns the request down: an error body with a 4xx or 5xx status.\<close>

fun rejected :: "uncaught + response \<Rightarrow> bool" where
  "rejected (Inr r) = (400 \<le> status r \<and> (case body r of ErrorBody e d \<Rightarrow> True | _ \<Rightarrow> False))"
| "rejected (Inl u) = False"

section \<open>The four operations of altcha-lib, from the specification\<close>

text \<open>
  Modelled from the spec: the hashing and HMAC primitives, the text of a number in
  \<open>salt \<parallel> number\<close>, the transport encodings, the place of the expiry marker in a salt,
  the canonical serialisation of VerificationData and the canonical joining rule of the
  field values are all named by the specification and fixed by none of its sentences;
  their code is in \<^verbatim>\<open>altcha-lib\<close>. They are the fields of one record, and every
  operation takes that record: a theorem about an operation holds for whatever primitives
  are supplied. Comparison in constant time is equality here; timing is not modelled.
\<close>

record primitives =
  hash :: "string \<Rightarrow> string \<Rightarrow> string"
  hmac :: "string \<Rightarrow> string \<Rightarrow> string"
  num_text :: "int \<Rightarrow> string"
  salt_expiry :: "string \<Rightarrow> nat option"
  embed_expiry :: "string \<Rightarrow> nat \<Rightarrow> string"
  decode_payload :: "string \<Rightarrow> payload option"
  decode_signed :: "string \<Rightarrow> (verification_data \<times> string) option"
  canonicalSerialize :: "verification_data \<Rightarrow> string"
  join_fields :: "string list \<Rightarrow> string"
  fields_algorithm :: string

subsection \<open>ChallengeIssuer\<close>

text \<open>
  Modelled from the spec: \<^verbatim>\<open>issue(secretKey, maxNumber, algorithm, expiry?)\<close> of section
  4.1. The number and the salt text are drawn at random, so the operation is a relation
  between its inputs and its possible outcomes: any number of \<open>[0, maxNumber]\<close> and any
  salt text may come out. The outcome carries the hidden number beside the challenge;
  only the challenge is returned to the caller. A \<open>maxNumber \<le> 0\<close> is the
  misconfiguration the specification names.
\<close>

datatype issue_error = ConfigurationError

inductive ChallengeIssuer_issue ::
  "primitives \<Rightarrow> string \<Rightarrow> int \<Rightarrow> string \<Rightarrow> nat option \<Rightarrow> issue_error + int \<times> challenge_rec \<Rightarrow> bool"
  for P :: primitives and secretKey :: string and maxNumber :: int and alg :: string
    and expiry :: "nat option"
  where
    misconfigured:
      "maxNumber \<le> 0 \<Longrightarrow> ChallengeIssuer_issue P secretKey maxNumber alg expiry (Inl ConfigurationError)"
  | issued:
      "0 < maxNumber \<Longrightarrow> 0 \<le> n \<Longrightarrow> n \<le> maxNumber \<Longrightarrow>
       s = (case expiry of None \<Rightarrow> random_text | Some t \<Rightarrow> embed_expiry P random_text t) \<Longrightarrow>
       c = hash P alg (s @ num_text P n) \<Longrightarrow>
       ChallengeIssuer_issue P secretKey maxNumber alg expiry
         (Inr (n, \<lparr>algorithm = alg, challenge = c, salt = s,
                   signature = hmac P secretKey c, maxnumber = maxNumber\<rparr>))"

subsection \<open>SolutionVerifier\<close>

text \<open>
  Modelled from the spec: step 2 of section 4.2, the recomputed
  \<open>hash(algorithm, salt \<parallel> number)\<close> compared with \<open>challenge\<close>.
\<close>

definition hash_check :: "primitives \<Rightarrow> payload \<Rightarrow> bool" where
  "hash_check P p = (hash P (algorithm p) (salt p @ num_text P (number p)) = challenge p)"

text \<open>
  Modelled from the spec: step 3 of section 4.2, the recomputed
  \<open>HMAC(secretKey, challenge)\<close> compared with \<open>signature\<close>.
\<close>

definition signature_check :: "primitives \<Rightarrow> string \<Rightarrow> payload \<Rightarrow> bool" where
  "signature_check P secretKey p = (hmac P secretKey (challenge p) = signature p)"

text \<open>
  Modelled from the spec: step 4 of section 4.2. The current time is an argument; a
  salt without a marker never expires, and a marker is in the past when it is below the
  current time.
\<close>

definition expired :: "primitives \<Rightarrow> nat \<Rightarrow> payload \<Rightarrow> bool" where
  "expired P now p = (case salt_expiry P (salt p) of None \<Rightarrow> False | Some t \<Rightarrow> t < now)"

text \<open>
  Modelled from the spec: \<^verbatim>\<open>verify(payload, secretKey, checkExpiry=true)\<close> of section
  4.2, its five steps in their order. The result is a truth value for every input.
\<close>

definition SolutionVerifier_verify :: "primitives \<Rightarrow> string \<Rightarrow> string \<Rightarrow> bool \<Rightarrow> nat \<Rightarrow> bool" where
  "SolutionVerifier_verify P encoded secretKey checkExpiry now =
     (case decode_payload P encoded of
        None \<Rightarrow> False
      | Some p \<Rightarrow>
          if \<not> hash_check P p then False
          else if \<not> signature_check P secretKey p then False
          else if checkExpiry \<and> expired P now p then False
          else True)"

text \<open>
  Modelled from the spec: the solution payload of section 3 that a client submits for a
  challenge once it has found the number: the four signed fields of the challenge and
  the number.
\<close>

definition solution_of :: "challenge_rec \<Rightarrow> int \<Rightarrow> payload" where
  "solution_of ch n =
     \<lparr>algorithm = algorithm ch, challenge = challenge ch, salt = salt ch,
      signature = signature ch, number = n\<rparr>"

subsection \<open>SignedPayloadVerifier\<close>


subsection \<open>FieldBinder\<close>





subsection \<open>An instance of the primitives\<close>

text \<open>
  Concrete primitives on which the operations can be evaluated. The digest of a text is
  the text behind the name of the algorithm, the HMAC is the message behind the key, a
  number is a sign and unary strokes, a text is written behind its length in strokes, a
  list of values is joined as the texts of its values, the expiry marker is written in
  strokes behind a question mark, and the decoders are finite tables. The serialisation
  of verification data writes every field, each in a form that tells where it ends, so
  that different data have different serialisations.
\<close>

definition demo_num_text :: "int \<Rightarrow> string" where
  "demo_num_text n = (if n < 0 then ''-'' else ''+'') @ replicate (nat \<bar>n\<bar>) CHR ''I''"

definition demo_text :: "string \<Rightarrow> string" where
  "demo_text s = replicate (length s) CHR ''I'' @ CHR ''.'' # s"

definition demo_join :: "string list \<Rightarrow> string" where
  "demo_join vs = concat (map demo_text vs)"

definition demo_list :: "string list \<Rightarrow> string" where
  "demo_list vs = replicate (length vs) CHR ''I'' @ CHR ''.'' # demo_join vs"

definition demo_nat :: "nat \<Rightarrow> string" where
  "demo_nat n = replicate n CHR ''I'' @ ''.''"

definition demo_option :: "('a \<Rightarrow> string) \<Rightarrow> 'a option \<Rightarrow> string" where
  "demo_option f x = (case x of None \<Rightarrow> ''N'' | Some y \<Rightarrow> CHR ''S'' # f y)"

definition demo_embed_expiry :: "string \<Rightarrow> nat \<Rightarrow> string" where
  "demo_embed_expiry raw t = raw @ ''?'' @ replicate t CHR ''I''"

definition demo_salt_expiry :: "string \<Rightarrow> nat option" where
  "demo_salt_expiry s =
     (case dropWhile (\<lambda>c. c \<noteq> CHR ''?'') s of [] \<Rightarrow> None | q # marker \<Rightarrow> Some (length marker))"

definition demo_payload :: "string \<Rightarrow> int \<Rightarrow> payload" where
  "demo_payload s n =
     \<lparr>algorithm = ''SHA-256'',
      challenge = ''SHA-256:'' @ s @ demo_num_text n,
      salt = s,
      signature = ''key:SHA-256:'' @ s @ demo_num_text n,
      number = n\<rparr>"

definition demo_data :: verification_data where
  "demo_data = \<lparr>classification = ''BAD'', fields' = Some [''email''],
                 fieldsHash = Some ''SHA-256:IIIII.a@b.c'', time = None\<rparr>"

definition demo_serialize :: "verification_data \<Rightarrow> string" where
  "demo_serialize vd =
     demo_text (classification vd) @ demo_option demo_list (fields' vd) @
     demo_option demo_text (fieldsHash vd) @ demo_option demo_nat (time vd)"

definition demo :: primitives where
  "demo =
     \<lparr>hash = (\<lambda>alg text. alg @ '':'' @ text),
      hmac = (\<lambda>key text. key @ '':'' @ text),
      num_text = demo_num_text,
      salt_expiry = demo_salt_expiry,
      embed_expiry = demo_embed_expiry,
      decode_payload =
        map_of
          [(''fresh'', demo_payload ''abc'' 3),
           (''stale'', demo_payload (demo_embed_expiry ''abc'' 100) 3),
           (''other number'', (demo_payload ''abc'' 3)\<lparr>number := 2\<rparr>),
           (''other salt'', (demo_payload ''abc'' 3)\<lparr>salt := ''abd''\<rparr>),
           (''other challenge'', (demo_payload ''abc'' 3)\<lparr>challenge := ''SHA-256:abc+II''\<rparr>),
           (''other signature'', (demo_payload ''abc'' 3)\<lparr>signature := ''kex:SHA-256:abc+III''\<rparr>)],
      decode_signed =
        map_of
          [(''signed'', (demo_data, ''key:'' @ demo_serialize demo_data)),
           (''mutated'', (demo_data\<lparr>classification := ''GOOD''\<rparr>,
                          ''key:'' @ demo_serialize demo_data))],
      canonicalSerialize = demo_serialize,
      join_fields = demo_join,
      fields_algorithm = ''SHA-256''\<rparr>"

subsection \<open>Instances with weaker primitives\<close>









text \<open>A form with an \<^verbatim>\<open>altcha\<close> field and one more field.\<close>

definition demo_form :: form_data where
  "demo_form = [(''altcha'', FText ''signed''), (''email'', FText ''a@b.c'')]"

section \<open>Properties of the routes\<close>

lemma json_eq [simp]: "json b st = Inr \<lparr>status = st, body = b\<rparr>"
  by (simp add: json_def)

lemma spam_filter_verified:
  assumes "\<not> falsy (formData_get formData ''altcha'')"
    and "verifyServerSignature (String_of (formData_get formData ''altcha'')) key = Inr r"
    and "verified r" and "verificationData r = Some vd"
  shows "post_submit_spam_filter verifyServerSignature verifyFieldsHash key (Inr formData) =
         classified verifyFieldsHash formData vd"
  using assms by (simp add: post_submit_spam_filter_def)

text \<open>
  C5. On the spam-filter route, a submission whose signed payload verifies and whose
  verification data is classified BAD is answered with the error "Classified as spam"
  and status 400, whatever the field check would say: the outcome is the same for every
  behaviour of \<^verbatim>\<open>verifyFieldsHash\<close>.
\<close>

theorem spam_classified_bad_rejected:
  assumes "\<not> falsy (formData_get formData ''altcha'')"
    and "verifyServerSignature (String_of (formData_get formData ''altcha'')) key = Inr r"
    and "verified r" and "verificationData r = Some vd"
    and "classification vd = ''BAD''"
  shows "post_submit_spam_filter verifyServerSignature verifyFieldsHash key (Inr formData) =
         Inr \<lparr>status = 400, body = ErrorBody ''Classified as spam'' None\<rparr>"
  using assms by (simp add: spam_filter_verified classified_def Let_def)

theorem spam_classified_bad_rejected_witness:
  "\<not> falsy (formData_get demo_form ''altcha'') \<and>
   verified \<lparr>verificationData = Some demo_data, verified = True\<rparr> \<and>
   classification demo_data = ''BAD'' \<and>
   post_submit_spam_filter
     (\<lambda>encoded key. Inr \<lparr>verificationData = Some demo_data, verified = True\<rparr>)
     (\<lambda>formData names h. Inr True) ''key'' (Inr demo_form) =
   Inr \<lparr>status = 400, body = ErrorBody ''Classified as spam'' None\<rparr>"
  using spam_classified_bad_rejected
    [of demo_form "\<lambda>encoded key. Inr \<lparr>verificationData = Some demo_data, verified = True\<rparr>"
        "''key''" "\<lparr>verificationData = Some demo_data, verified = True\<rparr>" demo_data
        "\<lambda>formData names h. Inr True"]
  by (simp add: demo_form_def demo_data_def formData_get_def)

text \<open>
  C10. On the spam-filter route, when the signed payload verifies, the classification is
  not BAD and the verification data lacks the list of fields or the fields hash, the
  submission is accepted with status 200 and \<^verbatim>\<open>verifyFieldsHash\<close> has no say: the
  answer is the same for every behaviour of it.
\<close>

theorem spam_binding_skipped_when_absent:
  assumes "\<not> falsy (formData_get formData ''altcha'')"
    and "verifyServerSignature (String_of (formData_get formData ''altcha'')) key = Inr r"
    and "verified r" and "verificationData r = Some vd"
    and "classification vd \<noteq> ''BAD''"
    and "fields' vd = None \<or> fieldsHash vd = None"
  shows "post_submit_spam_filter verifyServerSignature verifyFieldsHash key (Inr formData) =
         Inr \<lparr>status = 200, body = SuccessBody (fromEntries formData) (Some vd)\<rparr>"
  using assms
  by (auto simp add: spam_filter_verified classified_def Let_def split: option.splits)

theorem spam_binding_skipped_when_absent_witness:
  "\<not> falsy (formData_get demo_form ''altcha'') \<and>
   classification (demo_data\<lparr>classification := ''GOOD'', fieldsHash := None\<rparr>) \<noteq> ''BAD'' \<and>
   fieldsHash (demo_data\<lparr>classification := ''GOOD'', fieldsHash := None\<rparr>) = None \<and>
   post_submit_spam_filter
     (\<lambda>encoded key. Inr \<lparr>verificationData =
         Some (demo_data\<lparr>classification := ''GOOD'', fieldsHash := None\<rparr>), verified = True\<rparr>)
     (\<lambda>formData names h. Inr False) ''key'' (Inr demo_form) =
   Inr \<lparr>status = 200, body = SuccessBody (fromEntries demo_form)
         (Some (demo_data\<lparr>classification := ''GOOD'', fieldsHash := None\<rparr>))\<rparr>"
  using spam_binding_skipped_when_absent
    [of demo_form
        "\<lambda>encoded key. Inr \<lparr>verificationData =
           Some (demo_data\<lparr>classification := ''GOOD'', fieldsHash := None\<rparr>), verified = True\<rparr>"
        "''key''"
        "\<lparr>verificationData =
           Some (demo_data\<lparr>classification := ''GOOD'', fieldsHash := None\<rparr>), verified = True\<rparr>"
        "demo_data\<lparr>classification := ''GOOD'', fieldsHash := None\<rparr>"
        "\<lambda>formData names h. Inr False"]
  by (simp add: demo_form_def demo_data_def formData_get_def)

subsection \<open>What the routes do with a failure\<close>

text \<open>
  \<^verbatim>\<open>GET /altcha\<close> calls \<^verbatim>\<open>createChallenge\<close> once, with the key of the process and
  \<^verbatim>\<open>maxNumber\<close> 50000, and nothing but the result of that call decides the answer: a
  returned challenge is sent as it is with status 200, a thrown error is answered with
  status 500, the text "Failed to create challenge" and the message of the error.
\<close>

lemma get_altcha_outcomes:
  "(createChallenge \<lparr>hmacKey = key, maxNumber = 50000\<rparr> = Inl (Thrown message) \<longrightarrow>
      get_altcha createChallenge key =
      Inr \<lparr>status = 500, body = ErrorBody ''Failed to create challenge'' message\<rparr>) \<and>
   (createChallenge \<lparr>hmacKey = key, maxNumber = 50000\<rparr> = Inl ThrownNullish \<longrightarrow>
      get_altcha createChallenge key = Inl TypeError) \<and>
   (createChallenge \<lparr>hmacKey = key, maxNumber = 50000\<rparr> = Inr ch \<longrightarrow>
      get_altcha createChallenge key = Inr \<lparr>status = 200, body = ChallengeBody ch\<rparr>)"
  by (simp add: get_altcha_def)

text \<open>An unset or empty \<^verbatim>\<open>ALTCHA_HMAC_KEY\<close> is replaced by the random text; any other is kept.\<close>

lemma ALTCHA_HMAC_KEY_cases:
  "ALTCHA_HMAC_KEY None randomHex = randomHex"
  "ALTCHA_HMAC_KEY (Some []) randomHex = randomHex"
  "k \<noteq> [] \<Longrightarrow> ALTCHA_HMAC_KEY (Some k) randomHex = k"
  by (simp_all add: ALTCHA_HMAC_KEY_def)

text \<open>
  \<^verbatim>\<open>POST /submit\<close>, for a form with a non-empty \<^verbatim>\<open>altcha\<close> field and every behaviour of
  \<^verbatim>\<open>verifySolution\<close>: a false result is answered with status 400, a thrown error with
  status 500, and a thrown \<^verbatim>\<open>null\<close> or \<^verbatim>\<open>undefined\<close> leaves the handler as a
  \<^verbatim>\<open>TypeError\<close> of the catch block.
\<close>

lemma post_submit_outcomes:
  assumes "\<not> falsy (formData_get formData ''altcha'')"
  shows "verifySolution (String_of (formData_get formData ''altcha'')) key = Inr False \<Longrightarrow>
           post_submit verifySolution key (Inr formData) =
           Inr \<lparr>status = 400, body = ErrorBody ''Invalid Altcha payload'' None\<rparr>"
    and "verifySolution (String_of (formData_get formData ''altcha'')) key = Inl (Thrown message) \<Longrightarrow>
           post_submit verifySolution key (Inr formData) =
           Inr \<lparr>status = 500, body = ErrorBody ''Failed to process submission'' message\<rparr>"
    and "verifySolution (String_of (formData_get formData ''altcha'')) key = Inl ThrownNullish \<Longrightarrow>
           post_submit verifySolution key (Inr formData) = Inl TypeError"
    and "verifySolution (String_of (formData_get formData ''altcha'')) key = Inr True \<Longrightarrow>
           post_submit verifySolution key (Inr formData) =
           Inr \<lparr>status = 200, body = SuccessBody (fromEntries formData) None\<rparr>"
  using assms by (simp_all add: post_submit_def Let_def)

text \<open>
  \<^verbatim>\<open>POST /submit_spam_filter\<close>, for a form with a non-empty \<^verbatim>\<open>altcha\<close> field: a
  signature that is not verified is answered with status 400 and "Invalid Altcha
  payload", a fields hash that does not match with status 400 and "Invalid fields hash",
  and an error thrown by either operation with status 500.
\<close>

lemma post_submit_spam_filter_outcomes:
  assumes "\<not> falsy (formData_get formData ''altcha'')"
  shows "verifyServerSignature (String_of (formData_get formData ''altcha'')) key = Inr r \<Longrightarrow>
         \<not> verified r \<or> verificationData r = None \<Longrightarrow>
           post_submit_spam_filter verifyServerSignature verifyFieldsHash key (Inr formData) =
           Inr \<lparr>status = 400, body = ErrorBody ''Invalid Altcha payload'' None\<rparr>"
    and "verifyServerSignature (String_of (formData_get formData ''altcha'')) key =
           Inl (Thrown message) \<Longrightarrow>
           post_submit_spam_filter verifyServerSignature verifyFieldsHash key (Inr formData) =
           Inr \<lparr>status = 500,
                body = ErrorBody ''Failed to process submission with spam filter'' message\<rparr>"
  using assms
  by (auto simp add: post_submit_spam_filter_def Let_def split: option.splits)

lemma classified_fields_outcomes:
  assumes "classification vd \<noteq> ''BAD''" and "fields' vd = Some fs" and "fieldsHash vd = Some h"
    and "h \<noteq> []"
  shows "verifyFieldsHash formData fs h = Inr False \<Longrightarrow>
           classified verifyFieldsHash formData vd =
           Inr \<lparr>status = 400, body = ErrorBody ''Invalid fields hash'' None\<rparr>"
    and "verifyFieldsHash formData fs h = Inl (Thrown message) \<Longrightarrow>
           classified verifyFieldsHash formData vd =
           Inr \<lparr>status = 500,
                body = ErrorBody ''Failed to process submission with spam filter'' message\<rparr>"
    and "verifyFieldsHash formData fs h = Inr True \<Longrightarrow>
           classified verifyFieldsHash formData vd =
           Inr \<lparr>status = 200, body = SuccessBody (fromEntries formData) (Some vd)\<rparr>"
  using assms by (simp_all add: classified_def Let_def)

section \<open>Properties of the operations of the specification\<close>

subsection \<open>Facts about the operations and about the instance\<close>


lemma verify_decoded:
  "decode_payload P encoded = Some p \<Longrightarrow>
   SolutionVerifier_verify P encoded key ce now =
     (hash_check P p \<and> signature_check P key p \<and> \<not> (ce \<and> expired P now p))"
  by (simp add: SolutionVerifier_verify_def)













lemma demo_decode_simps:
  "decode_payload demo ''fresh'' = Some (demo_payload ''abc'' 3)"
  "decode_payload demo ''stale'' = Some (demo_payload (demo_embed_expiry ''abc'' 100) 3)"
  "decode_payload demo ''other number'' = Some ((demo_payload ''abc'' 3)\<lparr>number := 2\<rparr>)"
  "decode_payload demo ''other salt'' = Some ((demo_payload ''abc'' 3)\<lparr>salt := ''abd''\<rparr>)"
  "decode_payload demo ''other challenge'' =
     Some ((demo_payload ''abc'' 3)\<lparr>challenge := ''SHA-256:abc+II''\<rparr>)"
  "decode_payload demo ''other signature'' =
     Some ((demo_payload ''abc'' 3)\<lparr>signature := ''kex:SHA-256:abc+III''\<rparr>)"
  "decode_payload demo ''garbage'' = None"
  by (simp_all add: demo_def)

lemma demo_expiry_simps:
  "salt_expiry demo (demo_embed_expiry ''abc'' 100) = Some 100"
  "salt_expiry demo ''abc'' = None"
  "salt (demo_payload s n) = s"
  by (simp_all add: demo_def demo_payload_def demo_salt_expiry_def demo_embed_expiry_def)

lemma demo_payload_checks:
  "hash_check demo (demo_payload s n)"
  "signature_check demo ''key'' (demo_payload s n)"
  by (simp_all add: hash_check_def signature_check_def demo_payload_def demo_def)


lemma demo_stale_before: "SolutionVerifier_verify demo ''stale'' ''key'' True 50"
  by (simp add: verify_decoded [OF demo_decode_simps(2)] demo_payload_checks expired_def
      demo_expiry_simps)


lemma demo_issue_3:
  "ChallengeIssuer_issue demo ''key'' 10 ''SHA-256'' None
     (Inr (3, \<lparr>algorithm = ''SHA-256'', challenge = ''SHA-256:abc+III'', salt = ''abc'',
               signature = ''key:SHA-256:abc+III'', maxnumber = 10\<rparr>))"
  using ChallengeIssuer_issue.issued
    [where maxNumber = 10 and n = 3 and random_text = "''abc''" and expiry = None and P = demo
       and alg = "''SHA-256''" and secretKey = "''key''"]
  by (simp add: demo_def demo_num_text_def eval_nat_numeral)


lemma demo_issue_expiring:
  "ChallengeIssuer_issue demo ''key'' 10 ''SHA-256'' (Some 100)
     (Inr (3, \<lparr>algorithm = ''SHA-256'',
               challenge = ''SHA-256:'' @ demo_embed_expiry ''abc'' 100 @ ''+III'',
               salt = demo_embed_expiry ''abc'' 100,
               signature = ''key:SHA-256:'' @ demo_embed_expiry ''abc'' 100 @ ''+III'',
               maxnumber = 10\<rparr>))"
  using ChallengeIssuer_issue.issued
    [where maxNumber = 10 and n = 3 and random_text = "''abc''" and expiry = "Some 100"
       and P = demo and alg = "''SHA-256''" and secretKey = "''key''"]
  by (simp add: demo_def demo_num_text_def eval_nat_numeral)

subsection \<open>SolutionVerifier\<close>












text \<open>
  The solution of an issued challenge passes the hash check and the signature check
  under the key of issuance: what the issuer produces, the verifier accepts, expiry
  apart.
\<close>

lemma issued_solution_checks:
  assumes "ChallengeIssuer_issue P key m alg expiry (Inr (n, ch))"
  shows "hash_check P (solution_of ch n) \<and> signature_check P key (solution_of ch n)"
  using assms
proof cases
  case (issued s random_text c)
  then show ?thesis by (simp add: hash_check_def signature_check_def solution_of_def)
qed

lemma issued_solution_verifies:
  assumes "ChallengeIssuer_issue P key m alg expiry (Inr (n, ch))"
    and "decode_payload P encoded = Some (solution_of ch n)"
  shows "SolutionVerifier_verify P encoded key checkExpiry now \<longleftrightarrow>
         \<not> (checkExpiry \<and> expired P now (solution_of ch n))"
  using issued_solution_checks [OF assms(1)] by (simp add: verify_decoded [OF assms(2)])

lemma issued_solution_after_expiry:
  assumes i: "ChallengeIssuer_issue P key m alg expiry (Inr (n, ch))"
    and d: "decode_payload P encoded = Some (solution_of ch n)"
    and e: "salt_expiry P (salt ch) = Some t" and l: "t < now"
  shows "\<not> SolutionVerifier_verify P encoded key True now"
    and "SolutionVerifier_verify P encoded key False now"
proof -
  from e l have "expired P now (solution_of ch n)"
    by (simp add: expired_def solution_of_def)
  with issued_solution_verifies [OF i d, of True now]
  show "\<not> SolutionVerifier_verify P encoded key True now" by simp
  from issued_solution_verifies [OF i d, of False now]
  show "SolutionVerifier_verify P encoded key False now" by simp
qed

text \<open>
  C7. A payload whose salt carries an expiry marker in the past is not verified when
  \<^verbatim>\<open>checkExpiry\<close> is set; and a payload that fails the hash check or the signature check
  is not verified whatever the time and whether or not expiry is checked. In particular
  the solution of a challenge issued with an expiry, once the marker read from its salt
  is in the past, passes both checks and is still refused when expiry is checked, and
  accepted when it is not.
\<close>

theorem stale_or_failed_check_not_verified:
  assumes dec: "decode_payload P encoded = Some p"
  shows
   "(salt_expiry P (salt p) = Some t \<and> t < now \<longrightarrow>
       \<not> SolutionVerifier_verify P encoded key True now) \<and>
    (\<not> hash_check P p \<or> \<not> signature_check P key p \<longrightarrow>
       \<not> SolutionVerifier_verify P encoded key checkExpiry now') \<and>
    (ChallengeIssuer_issue P key m alg (Some t') (Inr (n, ch)) \<and> p = solution_of ch n \<and>
     salt_expiry P (salt ch) = Some t \<and> t < now \<longrightarrow>
       hash_check P p \<and> signature_check P key p \<and>
       \<not> SolutionVerifier_verify P encoded key True now \<and>
       SolutionVerifier_verify P encoded key False now)"
proof -
  have 1: "salt_expiry P (salt p) = Some t \<and> t < now \<longrightarrow>
           \<not> SolutionVerifier_verify P encoded key True now"
    by (simp add: verify_decoded [OF dec] expired_def)
  have 2: "\<not> hash_check P p \<or> \<not> signature_check P key p \<longrightarrow>
           \<not> SolutionVerifier_verify P encoded key checkExpiry now'"
    by (auto simp: verify_decoded [OF dec])
  have 3: "hash_check P p \<and> signature_check P key p \<and>
           \<not> SolutionVerifier_verify P encoded key True now \<and>
           SolutionVerifier_verify P encoded key False now"
    if i: "ChallengeIssuer_issue P key m alg (Some t') (Inr (n, ch))"
      and p: "p = solution_of ch n" and e: "salt_expiry P (salt ch) = Some t" and l: "t < now"
  proof -
    from dec p have d: "decode_payload P encoded = Some (solution_of ch n)" by simp
    from issued_solution_checks [OF i] p issued_solution_after_expiry [OF i d e l]
    show ?thesis by simp
  qed
  from 1 2 3 show ?thesis by blast
qed

theorem stale_or_failed_check_not_verified_witness:
  "decode_payload demo ''stale'' = Some (demo_payload (demo_embed_expiry ''abc'' 100) 3) \<and>
   salt_expiry demo (salt (demo_payload (demo_embed_expiry ''abc'' 100) 3)) = Some 100 \<and> (100::nat) < 150 \<and>
   \<not> SolutionVerifier_verify demo ''stale'' ''key'' True 150 \<and>
   SolutionVerifier_verify demo ''stale'' ''key'' True 50 \<and>
   decode_payload demo ''other number'' = Some ((demo_payload ''abc'' 3)\<lparr>number := 2\<rparr>) \<and>
   \<not> hash_check demo ((demo_payload ''abc'' 3)\<lparr>number := 2\<rparr>) \<and>
   \<not> SolutionVerifier_verify demo ''other number'' ''key'' False 0 \<and>
   ChallengeIssuer_issue demo ''key'' 10 ''SHA-256'' (Some 100)
     (Inr (3, \<lparr>algorithm = ''SHA-256'',
               challenge = ''SHA-256:'' @ demo_embed_expiry ''abc'' 100 @ ''+III'',
               salt = demo_embed_expiry ''abc'' 100,
               signature = ''key:SHA-256:'' @ demo_embed_expiry ''abc'' 100 @ ''+III'',
               maxnumber = 10\<rparr>)) \<and>
   SolutionVerifier_verify demo ''stale'' ''key'' False 150"
proof -
  note d = demo_decode_simps(2)
  note d' = demo_decode_simps(3)
  have e: "salt_expiry demo (salt (demo_payload (demo_embed_expiry ''abc'' 100) 3)) = Some 100"
    by (simp add: demo_expiry_simps)
  have l: "(100::nat) < 150" by simp
  have h: "\<not> hash_check demo ((demo_payload ''abc'' 3)\<lparr>number := 2\<rparr>)"
    by (simp add: hash_check_def demo_payload_def demo_def demo_num_text_def eval_nat_numeral)
  have 1: "\<not> SolutionVerifier_verify demo ''stale'' ''key'' True 150"
    using stale_or_failed_check_not_verified [OF d, where t = 100 and now = 150 and key = "''key''"]
      e l by blast
  have 2: "\<not> SolutionVerifier_verify demo ''other number'' ''key'' False 0"
    using stale_or_failed_check_not_verified
      [OF d', where key = "''key''" and checkExpiry = False and now' = 0] h by blast
  have s: "demo_payload (demo_embed_expiry ''abc'' 100) 3 =
           solution_of \<lparr>algorithm = ''SHA-256'',
               challenge = ''SHA-256:'' @ demo_embed_expiry ''abc'' 100 @ ''+III'',
               salt = demo_embed_expiry ''abc'' 100,
               signature = ''key:SHA-256:'' @ demo_embed_expiry ''abc'' 100 @ ''+III'',
               maxnumber = 10\<rparr> 3"
    by (simp add: solution_of_def demo_payload_def demo_num_text_def eval_nat_numeral)
  have e': "salt_expiry demo (salt \<lparr>algorithm = ''SHA-256'',
               challenge = ''SHA-256:'' @ demo_embed_expiry ''abc'' 100 @ ''+III'',
               salt = demo_embed_expiry ''abc'' 100,
               signature = ''key:SHA-256:'' @ demo_embed_expiry ''abc'' 100 @ ''+III'',
               maxnumber = (10::int)\<rparr>) = Some 100"
    by (simp add: demo_expiry_simps)
  have 3: "SolutionVerifier_verify demo ''stale'' ''key'' False 150"
    using stale_or_failed_check_not_verified
      [OF d, where t = 100 and now = 150 and key = "''key''" and m = 10 and alg = "''SHA-256''"
         and t' = 100 and n = 3] demo_issue_expiring s e' l
    by blast
  from d e l 1 demo_stale_before d' h 2 demo_issue_expiring 3 show ?thesis by blast
qed

subsection \<open>ChallengeIssuer\<close>

text \<open>
  C2. For every key and every \<open>maxNumber > 0\<close> the issuer has an outcome, and every
  outcome is a challenge with a hidden number in \<open>[0, maxNumber]\<close>, whose challenge field
  is the digest, under the requested algorithm, of the salt followed by the number, and
  whose signature is the HMAC of the challenge under the key.
\<close>

theorem issue_produces_signed_puzzle:
  fixes maxNumber :: int
  assumes "0 < maxNumber"
  shows "(\<exists>out. ChallengeIssuer_issue P secretKey maxNumber alg expiry out) \<and>
         (\<forall>out. ChallengeIssuer_issue P secretKey maxNumber alg expiry out \<longrightarrow>
            (\<exists>n ch. out = Inr (n, ch) \<and> 0 \<le> n \<and> n \<le> maxNumber \<and>
               algorithm ch = alg \<and> maxnumber ch = maxNumber \<and>
               challenge ch = hash P (algorithm ch) (salt ch @ num_text P n) \<and>
               signature ch = hmac P secretKey (challenge ch)))"
proof (intro conjI allI impI)
  from assms show "\<exists>out. ChallengeIssuer_issue P secretKey maxNumber alg expiry out"
    by (intro exI, rule ChallengeIssuer_issue.issued [where n = 0 and random_text = "[]"]) simp_all
next
  fix out
  assume "ChallengeIssuer_issue P secretKey maxNumber alg expiry out"
  then show "\<exists>n ch. out = Inr (n, ch) \<and> 0 \<le> n \<and> n \<le> maxNumber \<and>
               algorithm ch = alg \<and> maxnumber ch = maxNumber \<and>
               challenge ch = hash P (algorithm ch) (salt ch @ num_text P n) \<and>
               signature ch = hmac P secretKey (challenge ch)"
  proof cases
    case misconfigured
    with assms show ?thesis by simp
  next
    case (issued n s random_text c)
    then show ?thesis by simp
  qed
qed

theorem issue_produces_signed_puzzle_witness:
  "(0::int) < 10 \<and>
   ChallengeIssuer_issue demo ''key'' 10 ''SHA-256'' None
     (Inr (3, \<lparr>algorithm = ''SHA-256'', challenge = ''SHA-256:abc+III'', salt = ''abc'',
               signature = ''key:SHA-256:abc+III'', maxnumber = 10\<rparr>)) \<and>
   ''SHA-256:abc+III'' = hash demo ''SHA-256'' (''abc'' @ num_text demo 3) \<and>
   ''key:SHA-256:abc+III'' = hmac demo ''key'' ''SHA-256:abc+III''"
proof -
  have p: "(0::int) < 10" by simp
  from issue_produces_signed_puzzle [OF p, of demo "''key''" "''SHA-256''" None] demo_issue_3
  have "\<exists>n ch. Inr (3, \<lparr>algorithm = ''SHA-256'', challenge = ''SHA-256:abc+III'', salt = ''abc'',
               signature = ''key:SHA-256:abc+III'', maxnumber = 10\<rparr>) = Inr (n, ch) \<and>
               0 \<le> n \<and> n \<le> 10 \<and> algorithm ch = ''SHA-256'' \<and> maxnumber ch = 10 \<and>
               challenge ch = hash demo (algorithm ch) (salt ch @ num_text demo n) \<and>
               signature ch = hmac demo ''key'' (challenge ch)"
    by blast
  then have "''SHA-256:abc+III'' = hash demo ''SHA-256'' (''abc'' @ num_text demo 3) \<and>
   ''key:SHA-256:abc+III'' = hmac demo ''key'' ''SHA-256:abc+III''"
    by auto
  with p demo_issue_3 show ?thesis by blast
qed

subsection \<open>What the results depend on\<close>







subsection \<open>SignedPayloadVerifier\<close>










subsection \<open>FieldBinder\<close>









end
